theory Spec2Isabelle
  imports Complex_Main "HOL-Library.Product_Lexorder"
begin

section \<open>Data model (drizzle schema)\<close>

text \<open>
  The tables of the schema, with the columns the analysis service reads or writes.
  The columns \<open>id\<close> (auto-increment primary key; the only unique key of every table
  below), \<open>createdAt\<close> and \<open>updatedAt\<close> are filled in by the database and read by no
  function modelled here; they are left out, except the sensor's \<open>id\<close>.
  A table is the list of its rows in insertion order.

  JavaScript numbers are modelled as exact reals (integers where the code only ever
  holds integers): rounding of IEEE doubles is not modelled. The one division whose
  divisor can be zero is modelled with its IEEE result, see \<open>jsnum\<close>.
\<close>

datatype sensor_status = Active | SensorLeak | SensorWarning | Offline

record Sensor =
  s_id :: int
  s_name :: string
  s_location :: string
  s_pipeType :: "string option"
  s_status :: sensor_status

record FlowReading =
  fr_sensorId :: int
  fr_flowRate :: int
  fr_pressure :: int
  fr_timestamp :: int

datatype alert_type = AlertLeak | AlertBlockage | PressureDrop | Anomaly | Prediction

datatype severity = Low | Medium | High | Critical

record Alert =
  a_sensorId :: int
  a_type :: alert_type
  a_severity :: severity
  a_message :: string
  a_location :: string
  a_isRead :: bool
  a_isResolved :: bool
  a_timestamp :: int

record FlowPattern =
  fp_sensorId :: int
  fp_hourOfDay :: int
  fp_dayOfWeek :: int
  fp_avgFlowRate :: int
  fp_minFlowRate :: int
  fp_maxFlowRate :: int
  fp_stdDeviation :: int
  fp_sampleCount :: int

record PipeRiskScore =
  rs_sensorId :: int
  rs_riskScore :: int
  rs_leakProbability :: int
  rs_blockageProbability :: int
  rs_factors :: string
  rs_lastAnalyzedAt :: int

record database =
  sensors :: "Sensor list"
  flowReadings :: "FlowReading list"
  alerts :: "Alert list"
  flowPatterns :: "FlowPattern list"
  pipeRiskScores :: "PipeRiskScore list"

text \<open>
  \<open>getDb()\<close> returns the handle or \<open>null\<close> (no \<open>DATABASE_URL\<close>): the store is
  \<open>None\<close> or \<open>Some\<close> database. A query that fails inside the database is not modelled.
\<close>

type_synonym store = "database option"

subsection \<open>The clock\<close>

text \<open>
  \<open>Date.now()\<close> and \<open>new Date()\<close> read \<open>now\<close> (milliseconds since the epoch; one
  reading per call of an analysis function). \<open>getHours\<close> and \<open>getDay\<close> are in local
  time: \<open>utcOffset t\<close> is the local offset from UTC, in milliseconds, at instant \<open>t\<close>.
  1 January 1970 was a Thursday (day 4).
\<close>

record clock =
  now :: int
  utcOffset :: "int \<Rightarrow> int"

definition getHours :: "clock \<Rightarrow> int \<Rightarrow> int" where
  "getHours c t = ((t + utcOffset c t) div 3600000) mod 24"

definition getDay :: "clock \<Rightarrow> int \<Rightarrow> int" where
  "getDay c t = ((t + utcOffset c t) div 86400000 + 4) mod 7"

section \<open>Queries (db.ts)\<close>

definition getSensorById :: "store \<Rightarrow> int \<Rightarrow> Sensor option" where
  "getSensorById db i =
     (case db of None \<Rightarrow> None
      | Some d \<Rightarrow> find (\<lambda>s. s_id s = i) (sensors d))"

definition updateSensorStatus :: "store \<Rightarrow> int \<Rightarrow> sensor_status \<Rightarrow> store" where
  "updateSensorStatus db i st =
     (case db of None \<Rightarrow> None
      | Some d \<Rightarrow>
          Some (d\<lparr>sensors := map (\<lambda>s. if s_id s = i then s\<lparr>s_status := st\<rparr> else s) (sensors d)\<rparr>))"

text \<open>\<open>ORDER BY timestamp DESC LIMIT limit\<close>; rows of equal timestamp keep table order.\<close>

definition getRecentFlowReadings :: "store \<Rightarrow> int \<Rightarrow> nat \<Rightarrow> FlowReading list" where
  "getRecentFlowReadings db sensorId limit =
     (case db of None \<Rightarrow> []
      | Some d \<Rightarrow>
          take limit
            (sort_key (\<lambda>r. - fr_timestamp r)
              (filter (\<lambda>r. fr_sensorId r = sensorId) (flowReadings d))))"

definition getFlowReadingsInTimeRange :: "store \<Rightarrow> int \<Rightarrow> real \<Rightarrow> real \<Rightarrow> FlowReading list" where
  "getFlowReadingsInTimeRange db sensorId startTime endTime =
     (case db of None \<Rightarrow> []
      | Some d \<Rightarrow>
          sort_key fr_timestamp
            (filter (\<lambda>r. fr_sensorId r = sensorId
                        \<and> startTime \<le> real_of_int (fr_timestamp r)
                        \<and> real_of_int (fr_timestamp r) \<le> endTime)
              (flowReadings d)))"

text \<open>\<open>createAlert\<close> throws without a database; otherwise it inserts the row.\<close>

definition createAlert :: "store \<Rightarrow> Alert \<Rightarrow> store option" where
  "createAlert db alert =
     (case db of None \<Rightarrow> None
      | Some d \<Rightarrow> Some (Some (d\<lparr>alerts := alerts d @ [alert]\<rparr>)))"

text \<open>
  \<open>INSERT ... ON DUPLICATE KEY UPDATE\<close> updates a row only when the insert collides on a
  primary or unique key. The only such key of \<open>flowPatterns\<close> and of \<open>pipeRiskScores\<close> is
  the auto-increment \<open>id\<close>, which the callers never supply, so the insert never
  collides: both upserts append the row.
\<close>

definition upsertFlowPattern :: "store \<Rightarrow> FlowPattern \<Rightarrow> store" where
  "upsertFlowPattern db pattern =
     (case db of None \<Rightarrow> None
      | Some d \<Rightarrow> Some (d\<lparr>flowPatterns := flowPatterns d @ [pattern]\<rparr>))"

text \<open>\<open>LIMIT 1\<close> with no order: the first matching row of the table.\<close>

definition getFlowPattern :: "store \<Rightarrow> int \<Rightarrow> int \<Rightarrow> int \<Rightarrow> FlowPattern option" where
  "getFlowPattern db sensorId hourOfDay dayOfWeek =
     (case db of None \<Rightarrow> None
      | Some d \<Rightarrow>
          find (\<lambda>p. fp_sensorId p = sensorId \<and> fp_hourOfDay p = hourOfDay
                     \<and> fp_dayOfWeek p = dayOfWeek)
            (flowPatterns d))"

definition getAllFlowPatternsForSensor :: "store \<Rightarrow> int \<Rightarrow> FlowPattern list" where
  "getAllFlowPatternsForSensor db sensorId =
     (case db of None \<Rightarrow> []
      | Some d \<Rightarrow>
          sort_key (\<lambda>p. (fp_dayOfWeek p, fp_hourOfDay p))
            (filter (\<lambda>p. fp_sensorId p = sensorId) (flowPatterns d)))"

definition upsertPipeRiskScore :: "store \<Rightarrow> PipeRiskScore \<Rightarrow> store" where
  "upsertPipeRiskScore db score =
     (case db of None \<Rightarrow> None
      | Some d \<Rightarrow> Some (d\<lparr>pipeRiskScores := pipeRiskScores d @ [score]\<rparr>))"

subsection \<open>checkFlowAnomaly\<close>

record AnomalyCheck =
  isAnomaly :: bool
  deviation :: real
  expectedRange :: "(real \<times> real) option"

definition checkFlowAnomaly :: "clock \<Rightarrow> store \<Rightarrow> int \<Rightarrow> real \<Rightarrow> AnomalyCheck" where
  "checkFlowAnomaly c db sensorId currentFlowRate =
     (let hourOfDay = getHours c (now c);
          dayOfWeek = getDay c (now c)
      in case getFlowPattern db sensorId hourOfDay dayOfWeek of
           None \<Rightarrow> \<lparr>isAnomaly = False, deviation = 0, expectedRange = None\<rparr>
         | Some pattern \<Rightarrow>
             if fp_sampleCount pattern < 10
             then \<lparr>isAnomaly = False, deviation = 0, expectedRange = None\<rparr>
             else
               let expectedMin = real_of_int (fp_avgFlowRate pattern) - 2 * real_of_int (fp_stdDeviation pattern);
                   expectedMax = real_of_int (fp_avgFlowRate pattern) + 2 * real_of_int (fp_stdDeviation pattern)
               in \<lparr>isAnomaly = (currentFlowRate < expectedMin \<or> currentFlowRate > expectedMax),
                   deviation = currentFlowRate - real_of_int (fp_avgFlowRate pattern),
                   expectedRange = Some (expectedMin / 100, expectedMax / 100)\<rparr>)"

section \<open>Smart monitoring (the AI analysis service)\<close>

datatype flow_status = Normal | Warning | Leak | Blockage

record FlowAnalysisResult =
  r_sensorId :: int
  r_status :: flow_status
  r_confidence :: int
  r_message :: string
  r_severity :: severity
  r_factors :: "string list"

text \<open>\<open>Array.prototype.join\<close>.\<close>

fun join :: "string \<Rightarrow> string list \<Rightarrow> string" where
  "join sep [] = []"
| "join sep [x] = x"
| "join sep (x # y # ys) = x @ sep @ join sep (y # ys)"

definition generateAnalysisMessage :: "flow_status \<Rightarrow> string list \<Rightarrow> string \<Rightarrow> string" where
  "generateAnalysisMessage status factors location =
     (let factorText = (if length factors > 0 then '' Factors: '' @ join '', '' factors @ ''.'' else [])
      in case status of
           Leak \<Rightarrow> ''Leak detected at '' @ location @ ''.'' @ factorText
         | Blockage \<Rightarrow> ''Possible blockage detected at '' @ location @ ''.'' @ factorText
         | Warning \<Rightarrow> ''Abnormal flow pattern at '' @ location @ ''. Monitoring recommended.'' @ factorText
         | Normal \<Rightarrow> ''Normal operation at '' @ location @ ''.'')"

text \<open>The local variables \<open>factors\<close>, \<open>status\<close>, \<open>severity\<close>, \<open>confidence\<close> of the analysis.\<close>

record verdict =
  v_factors :: "string list"
  v_status :: flow_status
  v_severity :: severity
  v_confidence :: int

text \<open>
  \<open>analyzeFlowOverTime\<close> returns its result and the store it leaves behind. It calls
  \<open>getFlowReadingsInTimeRange\<close>, \<open>getSensorById\<close> and \<open>checkFlowAnomaly\<close>, which only
  read, and nothing else of the store.
\<close>

definition analyzeFlowOverTime :: "clock \<Rightarrow> store \<Rightarrow> int \<Rightarrow> real \<Rightarrow> FlowAnalysisResult \<times> store" where
  "analyzeFlowOverTime c db sensorId windowMinutes =
     (let windowMs = windowMinutes * 60 * 1000;
          endTime = real_of_int (now c);
          startTime = endTime - windowMs;
          readings = getFlowReadingsInTimeRange db sensorId startTime endTime
      in case getSensorById db sensorId of
           None \<Rightarrow>
             (\<lparr>r_sensorId = sensorId, r_status = Normal, r_confidence = 0,
               r_message = ''Sensor not found'', r_severity = Low,
               r_factors = [''sensor_not_found'']\<rparr>, db)
         | Some sensor \<Rightarrow>
             if length readings < 3
             then (\<lparr>r_sensorId = sensorId, r_status = Normal, r_confidence = 50,
                    r_message = ''Insufficient data for analysis'', r_severity = Low,
                    r_factors = [''insufficient_data'']\<rparr>, db)
             else
               let flowRates = map (\<lambda>r. real_of_int (fr_flowRate r)) readings;
                   pressures = map (\<lambda>r. real_of_int (fr_pressure r)) readings;
                   avgFlow = sum_list flowRates / real (length flowRates);
                   avgPressure = sum_list pressures / real (length pressures);
                   flowVariance =
                     sum_list (map (\<lambda>rate. (rate - avgFlow) ^ 2) flowRates) / real (length flowRates);
                   flowStdDev = sqrt flowVariance;
                   anomalyCheck = checkFlowAnomaly c db sensorId avgFlow;
                   v0 = \<lparr>v_factors = [], v_status = Normal, v_severity = Low, v_confidence = 70\<rparr>;
                   v1 = (if flowStdDev > avgFlow * 0.3
                         then v0\<lparr>v_factors := v_factors v0 @ [''high_flow_variance''],
                                 v_status := Warning, v_severity := Medium\<rparr>
                         else v0);
                   v2 = (if avgPressure < 3000
                         then v1\<lparr>v_factors := v_factors v1 @ [''low_pressure''],
                                 v_status := Leak, v_severity := High, v_confidence := 85\<rparr>
                         else v1);
                   v3 = (if avgFlow < 100 \<and> avgPressure > 5000
                         then v2\<lparr>v_factors := v_factors v2 @ [''possible_blockage''],
                                 v_status := Blockage, v_severity := Medium, v_confidence := 75\<rparr>
                         else v2);
                   v4 = (if isAnomaly anomalyCheck
                         then (let v = v3\<lparr>v_factors := v_factors v3 @ [''pattern_deviation'']\<rparr>;
                                   v' = (if v_status v = Normal
                                         then v\<lparr>v_status := Warning, v_severity := Medium\<rparr>
                                         else v)
                               in v'\<lparr>v_confidence := min (v_confidence v' + 10) 95\<rparr>)
                         else v3);
                   message = generateAnalysisMessage (v_status v4) (v_factors v4) (s_location sensor)
               in (\<lparr>r_sensorId = sensorId, r_status = v_status v4, r_confidence = v_confidence v4,
                     r_message = message, r_severity = v_severity v4, r_factors = v_factors v4\<rparr>, db))"

subsection \<open>Comparison across pipes\<close>

text \<open>
  \<open>getAggregatedFlowData\<close> and \<open>calculateFlowVariance\<close> are helpers of db.ts;
  \<open>compareFlowAcrossPipes\<close> is the service function on top of them.

  \<open>Math.min(...xs)\<close> and \<open>Math.max(...xs)\<close> over integers. Every list they are applied
  to below holds at least one element (a group of the \<open>GROUP BY\<close>, a bucket of the
  learner); the empty case is never reached.
\<close>

fun minList :: "int list \<Rightarrow> int" where
  "minList [] = 0"
| "minList (x # xs) = fold min xs x"

fun maxList :: "int list \<Rightarrow> int" where
  "maxList [] = 0"
| "maxList (x # xs) = fold max xs x"

record AggregatedFlow =
  ag_sensorId :: int
  ag_avgFlowRate :: real
  ag_minFlowRate :: int
  ag_maxFlowRate :: int
  ag_avgPressure :: real
  ag_readingCount :: nat

text \<open>
  \<open>SELECT sensorId, AVG, MIN, MAX, AVG, COUNT ... WHERE timestamp >= cutoff GROUP BY
  sensorId\<close>: one row per sensor with a reading in the window, here in the order of the
  sensor ids; \<open>AVG\<close> is the exact mean.
\<close>

definition getAggregatedFlowData :: "clock \<Rightarrow> store \<Rightarrow> int \<Rightarrow> AggregatedFlow list" where
  "getAggregatedFlowData c db timeWindowMs =
     (case db of None \<Rightarrow> []
      | Some d \<Rightarrow>
          let cutoffTime = now c - timeWindowMs;
              rows = filter (\<lambda>r. fr_timestamp r \<ge> cutoffTime) (flowReadings d)
          in map (\<lambda>sid.
                   let g = filter (\<lambda>r. fr_sensorId r = sid) rows
                   in \<lparr>ag_sensorId = sid,
                       ag_avgFlowRate = sum_list (map (\<lambda>r. real_of_int (fr_flowRate r)) g) / real (length g),
                       ag_minFlowRate = minList (map fr_flowRate g),
                       ag_maxFlowRate = maxList (map fr_flowRate g),
                       ag_avgPressure = sum_list (map (\<lambda>r. real_of_int (fr_pressure r)) g) / real (length g),
                       ag_readingCount = length g\<rparr>)
               (sort (remdups (map fr_sensorId rows))))"

record FlowVariance =
  fv_avgFlow :: real
  fv_variance :: real
  fv_stdDev :: real
  fv_sensorData :: "AggregatedFlow list"

definition calculateFlowVariance :: "clock \<Rightarrow> store \<Rightarrow> FlowVariance option" where
  "calculateFlowVariance c db =
     (let aggregatedData = getAggregatedFlowData c db 300000
      in if length aggregatedData < 2 then None
         else
           let flowRates = map ag_avgFlowRate aggregatedData;
               avgFlow = sum_list flowRates / real (length flowRates);
               variance = sum_list (map (\<lambda>rate. (rate - avgFlow) ^ 2) flowRates) / real (length flowRates)
           in Some \<lparr>fv_avgFlow = avgFlow, fv_variance = variance, fv_stdDev = sqrt variance,
                     fv_sensorData = aggregatedData\<rparr>)"

text \<open>Decimal rendering of a count, as a template literal prints it.\<close>

function decimal :: "nat \<Rightarrow> string" where
  "decimal n = (if n < 10 then [''0123456789'' ! n] else decimal (n div 10) @ [''0123456789'' ! (n mod 10)])"
  by pat_completeness auto
termination
  by (relation "measure (\<lambda>n. n)") auto

text \<open>
  The products \<open>avgFlow * 0.5\<close>, \<open>sensorData.length * 0.7\<close> and \<open>stdDev * 2\<close> are exact
  here. In doubles \<open>0.7\<close> is not exact, so at a count of exactly 70% of the sensors (63
  of 90, say) the rounded product can fall just below the count and the source then
  reports system-wide where this definition does not.
\<close>

record Comparison =
  isSystemWideIssue :: bool
  affectedSensors :: "int list"
  diagnosis :: string

definition compareFlowAcrossPipes :: "clock \<Rightarrow> store \<Rightarrow> Comparison" where
  "compareFlowAcrossPipes c db =
     (case calculateFlowVariance c db of
        None \<Rightarrow>
          \<lparr>isSystemWideIssue = False, affectedSensors = [],
            diagnosis = ''Insufficient data for comparison''\<rparr>
      | Some flowVariance \<Rightarrow>
          let sensorData = fv_sensorData flowVariance;
              stdDev = fv_stdDev flowVariance;
              avgFlow = fv_avgFlow flowVariance;
              lowFlowSensors = filter (\<lambda>s. ag_avgFlowRate s < avgFlow * 0.5) sensorData;
              isSystemWide = (real (length lowFlowSensors) > real (length sensorData) * 0.7)
          in if isSystemWide
             then \<lparr>isSystemWideIssue = True, affectedSensors = map ag_sensorId sensorData,
                    diagnosis = ''System-wide low flow detected. Possible causes: low water tank level, main supply issue, or scheduled maintenance.''\<rparr>
             else
               let outliers = filter (\<lambda>s. let deviation = \<bar>ag_avgFlowRate s - avgFlow\<bar>
                                            in deviation > stdDev * 2) sensorData
               in if length outliers > 0
                  then \<lparr>isSystemWideIssue = False, affectedSensors = map ag_sensorId outliers,
                         diagnosis = ''Localized flow anomaly detected in '' @ decimal (length outliers)
                           @ '' sensor(s). Possible leak or blockage in specific pipe sections.''\<rparr>
                  else \<lparr>isSystemWideIssue = False, affectedSensors = [],
                         diagnosis = ''All sensors operating within normal parameters.''\<rparr>)"

section \<open>Pattern learning\<close>

text \<open>\<open>Math.round\<close>: the nearest integer, halves upwards.\<close>

definition js_round :: "real \<Rightarrow> int" where
  "js_round x = \<lfloor>x + 1 / 2\<rfloor>"

text \<open>
  The \<open>Map\<close> from the key \<open>`${getDay()}-${getHours()}`\<close> to the flow rates, in insertion
  order. The key is kept as the pair (day, hour) that \<open>key.split("-").map(Number)\<close>
  reads back from it (both are non-negative).
\<close>

type_synonym buckets = "((int \<times> int) \<times> int list) list"

definition pushReading :: "clock \<Rightarrow> buckets \<Rightarrow> FlowReading \<Rightarrow> buckets" where
  "pushReading c patterns reading =
     (let key = (getDay c (fr_timestamp reading), getHours c (fr_timestamp reading));
          patterns' = (if key \<in> set (map fst patterns) then patterns else patterns @ [(key, [])])
      in map (\<lambda>(k, flowRates). if k = key then (k, flowRates @ [fr_flowRate reading]) else (k, flowRates))
           patterns')"

definition bucketPattern :: "int \<Rightarrow> (int \<times> int) \<times> int list \<Rightarrow> FlowPattern" where
  "bucketPattern sensorId entry =
     (case entry of ((dayOfWeek, hourOfDay), flowRates) \<Rightarrow>
        let rates = map real_of_int flowRates;
            avg = sum_list rates / real (length rates);
            variance = sum_list (map (\<lambda>rate. (rate - avg) ^ 2) rates) / real (length rates);
            stdDev = sqrt variance
        in \<lparr>fp_sensorId = sensorId, fp_hourOfDay = hourOfDay, fp_dayOfWeek = dayOfWeek,
            fp_avgFlowRate = js_round avg, fp_minFlowRate = minList flowRates,
            fp_maxFlowRate = maxList flowRates, fp_stdDeviation = js_round stdDev,
            fp_sampleCount = int (length flowRates)\<rparr>)"

definition learnFlowPatterns :: "clock \<Rightarrow> store \<Rightarrow> int \<Rightarrow> store" where
  "learnFlowPatterns c db sensorId =
     (let readings = getRecentFlowReadings db sensorId 100
      in if length readings < 10 then db
         else
           let patterns = foldl (pushReading c) [] readings
           in foldl (\<lambda>db' entry. upsertFlowPattern db' (bucketPattern sensorId entry)) db patterns)"

section \<open>Risk prediction\<close>

text \<open>
  The quotient \<open>Math.sqrt(variance) / avg\<close> as IEEE arithmetic gives it: a zero divisor
  yields \<open>NaN\<close> for \<open>0 / 0\<close> and an infinity otherwise; \<open>NaN > x\<close> is false.
\<close>

datatype jsnum = Finite real | PosInfinity | NegInfinity | NaN

definition js_div :: "real \<Rightarrow> real \<Rightarrow> jsnum" where
  "js_div a b =
     (if b = 0 then (if a > 0 then PosInfinity else if a < 0 then NegInfinity else NaN)
      else Finite (a / b))"

fun js_gt :: "jsnum \<Rightarrow> real \<Rightarrow> bool" where
  "js_gt (Finite x) y = (x > y)"
| "js_gt PosInfinity y = True"
| "js_gt NegInfinity y = False"
| "js_gt NaN y = False"

text \<open>\<open>JSON.stringify\<close> of an array of strings that need no escaping (the factor labels).\<close>

definition jsonStringify :: "string list \<Rightarrow> string" where
  "jsonStringify xs = ''['' @ join '','' (map (\<lambda>x. [CHR 0x22] @ x @ [CHR 0x22]) xs) @ '']''"

record PredictionResult =
  p_sensorId :: int
  p_sensorName :: string
  p_riskScore :: int
  p_leakProbability :: int
  p_blockageProbability :: int
  p_factors :: "string list"
  p_recommendation :: string

text \<open>The local variables \<open>riskScore\<close>, \<open>leakProbability\<close>, \<open>blockageProbability\<close>, \<open>factors\<close>.\<close>

record scoring =
  sc_riskScore :: int
  sc_leakProbability :: int
  sc_blockageProbability :: int
  sc_factors :: "string list"

text \<open>Factor 1: current status.\<close>

definition factorCurrentStatus :: "Sensor \<Rightarrow> scoring \<Rightarrow> scoring" where
  "factorCurrentStatus sensor a =
     (if s_status sensor = SensorLeak
      then a\<lparr>sc_riskScore := sc_riskScore a + 50,
             sc_leakProbability := sc_leakProbability a + 80,
             sc_factors := sc_factors a @ [''Active leak detected'']\<rparr>
      else if s_status sensor = SensorWarning
      then a\<lparr>sc_riskScore := sc_riskScore a + 25,
             sc_leakProbability := sc_leakProbability a + 30,
             sc_factors := sc_factors a @ [''Warning status active'']\<rparr>
      else a)"

text \<open>
  Factor 2: flow variance in recent readings, and the check for pressure drops. The
  comparison with 0.5 is exact here; where the exact coefficient of variation is 0.5 the
  rounded square root of the source can come out just above it.
\<close>

definition factorFlowVariance :: "FlowReading list \<Rightarrow> scoring \<Rightarrow> scoring" where
  "factorFlowVariance recentReadings a =
     (if length recentReadings \<ge> 10
      then
        let flowRates = map (\<lambda>r. real_of_int (fr_flowRate r)) recentReadings;
            avg = sum_list flowRates / real (length flowRates);
            variance = sum_list (map (\<lambda>rate. (rate - avg) ^ 2) flowRates) / real (length flowRates);
            coefficientOfVariation = js_div (sqrt variance) avg;
            b = (if js_gt coefficientOfVariation 0.5
                 then a\<lparr>sc_riskScore := sc_riskScore a + 20,
                        sc_leakProbability := sc_leakProbability a + 25,
                        sc_factors := sc_factors a @ [''High flow variability'']\<rparr>
                 else a);
            pressures = map (\<lambda>r. real_of_int (fr_pressure r)) recentReadings;
            avgPressure = sum_list pressures / real (length pressures)
        in if avgPressure < 3500
           then b\<lparr>sc_riskScore := sc_riskScore b + 15,
                  sc_leakProbability := sc_leakProbability b + 20,
                  sc_factors := sc_factors b @ [''Below-normal pressure'']\<rparr>
           else b
      else a)"

text \<open>Factor 3: pattern deviations.\<close>

definition factorPatternDeviation :: "clock \<Rightarrow> FlowPattern list \<Rightarrow> FlowReading list \<Rightarrow> scoring \<Rightarrow> scoring" where
  "factorPatternDeviation c patterns recentReadings a =
     (if length patterns > 0
      then
        (case find (\<lambda>p. fp_hourOfDay p = getHours c (now c) \<and> fp_dayOfWeek p = getDay c (now c)) patterns of
           None \<Rightarrow> a
         | Some currentPattern \<Rightarrow>
             (case recentReadings of
                [] \<Rightarrow> a
              | latest # _ \<Rightarrow>
                  let currentFlow = fr_flowRate latest;
                      deviation = \<bar>currentFlow - fp_avgFlowRate currentPattern\<bar>
                  in if deviation > fp_stdDeviation currentPattern * 2
                     then a\<lparr>sc_riskScore := sc_riskScore a + 15,
                            sc_factors := sc_factors a @ [''Significant pattern deviation'']\<rparr>
                     else a))
      else a)"

text \<open>Factor 4: pipe type risk.\<close>

definition factorPipeType :: "Sensor \<Rightarrow> scoring \<Rightarrow> scoring" where
  "factorPipeType sensor a =
     (if s_pipeType sensor = Some ''main''
      then a\<lparr>sc_riskScore := sc_riskScore a + 5,
             sc_factors := sc_factors a @ [''Main pipe (higher impact)'']\<rparr>
      else a)"

definition recommendationFor :: "int \<Rightarrow> string" where
  "recommendationFor riskScore =
     (if riskScore > 70 then ''Immediate inspection recommended. High risk of failure.''
      else if riskScore > 40 then ''Schedule preventive maintenance within the next week.''
      else if riskScore > 20 then ''Monitor closely. Consider inspection during next maintenance cycle.''
      else ''Continue regular monitoring.'')"

text \<open>
  \<open>calculatePipeRiskScore\<close>: the four factors in the order of the source, the
  normalisation, the recommendation, the write to \<open>pipeRiskScores\<close> and the result.
\<close>

definition calculatePipeRiskScore :: "clock \<Rightarrow> store \<Rightarrow> int \<Rightarrow> PredictionResult option \<times> store" where
  "calculatePipeRiskScore c db sensorId =
     (case getSensorById db sensorId of
        None \<Rightarrow> (None, db)
      | Some sensor \<Rightarrow>
          let recentReadings = getRecentFlowReadings db sensorId 50;
              patterns = getAllFlowPatternsForSensor db sensorId;
              a0 = \<lparr>sc_riskScore = 0, sc_leakProbability = 0, sc_blockageProbability = 0, sc_factors = []\<rparr>;
              a1 = factorCurrentStatus sensor a0;
              a2 = factorFlowVariance recentReadings a1;
              a3 = factorPatternDeviation c patterns recentReadings a2;
              a4 = factorPipeType sensor a3;
              riskScore = min (sc_riskScore a4) 100;
              leakProbability = min (sc_leakProbability a4) 100;
              blockageProbability = min (sc_blockageProbability a4) 100;
              factors = sc_factors a4;
              recommendation = recommendationFor riskScore;
              db' = upsertPipeRiskScore db
                      \<lparr>rs_sensorId = sensorId, rs_riskScore = riskScore,
                        rs_leakProbability = leakProbability * 100,
                        rs_blockageProbability = blockageProbability * 100,
                        rs_factors = jsonStringify factors, rs_lastAnalyzedAt = now c\<rparr>
          in (Some \<lparr>p_sensorId = sensorId, p_sensorName = s_name sensor, p_riskScore = riskScore,
                     p_leakProbability = leakProbability, p_blockageProbability = blockageProbability,
                     p_factors = factors, p_recommendation = recommendation\<rparr>, db'))"

section \<open>Example stores\<close>

text \<open>
  Concrete clocks and stores on which the functions are evaluated. At \<open>exClock\<close> the
  local time is UTC and the instant is one second after the epoch: hour 0 of day 4.
\<close>

definition exClock :: clock where
  "exClock = \<lparr>now = 1000, utcOffset = (\<lambda>t. 0)\<rparr>"

definition exSensor :: Sensor where
  "exSensor = \<lparr>s_id = 1, s_name = ''Main Pipe'', s_location = ''Kitchen'',
                s_pipeType = Some ''main'', s_status = Active\<rparr>"

definition lowPressureReadings :: "FlowReading list" where
  "lowPressureReadings =
     [\<lparr>fr_sensorId = 1, fr_flowRate = 1000, fr_pressure = 1800, fr_timestamp = 100\<rparr>,
      \<lparr>fr_sensorId = 1, fr_flowRate = 1000, fr_pressure = 1800, fr_timestamp = 200\<rparr>,
      \<lparr>fr_sensorId = 1, fr_flowRate = 1000, fr_pressure = 1800, fr_timestamp = 300\<rparr>]"

definition exPattern :: "int \<Rightarrow> FlowPattern" where
  "exPattern n = \<lparr>fp_sensorId = 1, fp_hourOfDay = 0, fp_dayOfWeek = 4, fp_avgFlowRate = 5000,
                   fp_minFlowRate = 4000, fp_maxFlowRate = 6000, fp_stdDeviation = 100,
                   fp_sampleCount = n\<rparr>"

text \<open>One sensor, three readings at 18 PSI in the last five minutes, nothing learned.\<close>

definition lowPressureDb :: database where
  "lowPressureDb = \<lparr>sensors = [exSensor], flowReadings = lowPressureReadings, alerts = [],
                     flowPatterns = [], pipeRiskScores = []\<rparr>"

text \<open>The same with a learned bucket of \<open>n\<close> samples for the current hour and weekday.\<close>

definition learnedDb :: "int \<Rightarrow> database" where
  "learnedDb n = \<lparr>sensors = [exSensor], flowReadings = lowPressureReadings, alerts = [],
                   flowPatterns = [exPattern n], pipeRiskScores = []\<rparr>"

text \<open>The same with two readings only.\<close>

definition sparseDb :: database where
  "sparseDb = \<lparr>sensors = [exSensor], flowReadings = take 2 lowPressureReadings, alerts = [],
                 flowPatterns = [], pipeRiskScores = []\<rparr>"

text \<open>A sensor whose stored status is \<open>leak\<close>, with no readings.\<close>

definition leakingSensor :: Sensor where
  "leakingSensor = \<lparr>s_id = 2, s_name = ''Branch Pipe'', s_location = ''Basement'',
                     s_pipeType = Some ''branch'', s_status = SensorLeak\<rparr>"

definition leakDb :: database where
  "leakDb = \<lparr>sensors = [leakingSensor], flowReadings = [], alerts = [],
              flowPatterns = [], pipeRiskScores = []\<rparr>"

definition leakPrediction :: PredictionResult where
  "leakPrediction = \<lparr>p_sensorId = 2, p_sensorName = ''Branch Pipe'', p_riskScore = 50,
       p_leakProbability = 80, p_blockageProbability = 0, p_factors = [''Active leak detected''],
       p_recommendation = ''Schedule preventive maintenance within the next week.''\<rparr>"

definition leakRow :: PipeRiskScore where
  "leakRow = \<lparr>rs_sensorId = 2, rs_riskScore = 50, rs_leakProbability = 8000,
       rs_blockageProbability = 0, rs_factors = ''[\"Active leak detected\"]'',
       rs_lastAnalyzedAt = 1000\<rparr>"

text \<open>Ten readings of sensor 1 in one hour, all with flow 500; nothing learned yet.\<close>

definition steadyReadings :: "FlowReading list" where
  "steadyReadings = map (\<lambda>t. \<lparr>fr_sensorId = 1, fr_flowRate = 500, fr_pressure = 4000, fr_timestamp = t\<rparr>)
      [1, 2, 3, 4, 5, 6, 7, 8, 9, 10]"

definition steadyDb :: database where
  "steadyDb = \<lparr>sensors = [exSensor], flowReadings = steadyReadings, alerts = [],
                flowPatterns = [], pipeRiskScores = []\<rparr>"

definition steadyPattern :: FlowPattern where
  "steadyPattern = \<lparr>fp_sensorId = 1, fp_hourOfDay = 0, fp_dayOfWeek = 4, fp_avgFlowRate = 500,
       fp_minFlowRate = 500, fp_maxFlowRate = 500, fp_stdDeviation = 0, fp_sampleCount = 10\<rparr>"









text \<open>
  Three sensors with one reading each in the last five minutes, flows 100, 105 and 98;
  and four sensors of which three have no flow.
\<close>

definition similarSensors :: "Sensor list" where
  "similarSensors =
     map (\<lambda>i. \<lparr>s_id = i, s_name = ''Pipe'', s_location = ''Floor'', s_pipeType = Some ''branch'',
                s_status = Active\<rparr>) [1, 2, 3]"

definition similarDb :: database where
  "similarDb = \<lparr>sensors = similarSensors,
      flowReadings =
        [\<lparr>fr_sensorId = 1, fr_flowRate = 100, fr_pressure = 4000, fr_timestamp = 900\<rparr>,
         \<lparr>fr_sensorId = 2, fr_flowRate = 105, fr_pressure = 4000, fr_timestamp = 900\<rparr>,
         \<lparr>fr_sensorId = 3, fr_flowRate = 98, fr_pressure = 4000, fr_timestamp = 900\<rparr>],
      alerts = [], flowPatterns = [], pipeRiskScores = []\<rparr>"

definition drainedDb :: database where
  "drainedDb = \<lparr>sensors = similarSensors,
      flowReadings =
        [\<lparr>fr_sensorId = 1, fr_flowRate = 0, fr_pressure = 4000, fr_timestamp = 900\<rparr>,
         \<lparr>fr_sensorId = 2, fr_flowRate = 0, fr_pressure = 4000, fr_timestamp = 900\<rparr>,
         \<lparr>fr_sensorId = 3, fr_flowRate = 0, fr_pressure = 4000, fr_timestamp = 900\<rparr>,
         \<lparr>fr_sensorId = 4, fr_flowRate = 1000, fr_pressure = 4000, fr_timestamp = 900\<rparr>],
      alerts = [], flowPatterns = [], pipeRiskScores = []\<rparr>"

section \<open>Evaluation and auxiliary facts\<close>

declare decimal.simps [simp del]

lemmas ex_defs = exClock_def exSensor_def lowPressureReadings_def exPattern_def lowPressureDb_def
  learnedDb_def sparseDb_def getSensorById_def getFlowReadingsInTimeRange_def getFlowPattern_def
  getHours_def getDay_def

lemma getSensorById_Some_store:
  "getSensorById db i = Some s \<Longrightarrow> \<exists>d. db = Some d"
  by (cases db) (simp_all add: getSensorById_def)

subsection \<open>The four factors only add\<close>

lemma factorCurrentStatus_bounds:
  "sc_riskScore a \<le> sc_riskScore (factorCurrentStatus sensor a)
   \<and> sc_leakProbability a \<le> sc_leakProbability (factorCurrentStatus sensor a)
   \<and> sc_blockageProbability (factorCurrentStatus sensor a) = sc_blockageProbability a"
  by (simp add: factorCurrentStatus_def)

lemma factorFlowVariance_bounds:
  "sc_riskScore a \<le> sc_riskScore (factorFlowVariance rs a)
   \<and> sc_leakProbability a \<le> sc_leakProbability (factorFlowVariance rs a)
   \<and> sc_blockageProbability (factorFlowVariance rs a) = sc_blockageProbability a"
  by (simp add: factorFlowVariance_def Let_def)

lemma factorPatternDeviation_bounds:
  "sc_riskScore a \<le> sc_riskScore (factorPatternDeviation c ps rs a)
   \<and> sc_leakProbability a \<le> sc_leakProbability (factorPatternDeviation c ps rs a)
   \<and> sc_blockageProbability (factorPatternDeviation c ps rs a) = sc_blockageProbability a"
  by (simp add: factorPatternDeviation_def Let_def split: option.split list.split)

lemma factorPipeType_bounds:
  "sc_riskScore a \<le> sc_riskScore (factorPipeType sensor a)
   \<and> sc_leakProbability a \<le> sc_leakProbability (factorPipeType sensor a)
   \<and> sc_blockageProbability (factorPipeType sensor a) = sc_blockageProbability a"
  by (simp add: factorPipeType_def)

lemma factors_bounds:
  assumes "a4 = factorPipeType sensor (factorPatternDeviation c ps rs (factorFlowVariance rs (factorCurrentStatus sensor a0)))"
  shows "sc_riskScore a0 \<le> sc_riskScore a4 \<and> sc_leakProbability a0 \<le> sc_leakProbability a4
         \<and> sc_blockageProbability a4 = sc_blockageProbability a0"
  unfolding assms
  using factorCurrentStatus_bounds [of a0 sensor]
    factorFlowVariance_bounds [of "factorCurrentStatus sensor a0" rs]
    factorPatternDeviation_bounds [of "factorFlowVariance rs (factorCurrentStatus sensor a0)" c ps rs]
    factorPipeType_bounds [of "factorPatternDeviation c ps rs (factorFlowVariance rs (factorCurrentStatus sensor a0))" sensor]
  by linarith

subsection \<open>The leaking sensor, scored\<close>

lemma leakDb_sensor: "getSensorById (Some leakDb) 2 = Some leakingSensor"
  by (simp add: getSensorById_def leakDb_def leakingSensor_def)

lemma leakDb_reads:
  "getRecentFlowReadings (Some leakDb) 2 50 = []"
  "getAllFlowPatternsForSensor (Some leakDb) 2 = []"
  by (simp_all add: getRecentFlowReadings_def getAllFlowPatternsForSensor_def leakDb_def)

lemma leakDb_factors:
  "factorPipeType leakingSensor (factorPatternDeviation exClock [] [] (factorFlowVariance []
     (factorCurrentStatus leakingSensor
        \<lparr>sc_riskScore = 0, sc_leakProbability = 0, sc_blockageProbability = 0, sc_factors = []\<rparr>)))
   = \<lparr>sc_riskScore = 50, sc_leakProbability = 80, sc_blockageProbability = 0,
      sc_factors = [''Active leak detected'']\<rparr>"
  by (simp add: factorCurrentStatus_def factorFlowVariance_def factorPatternDeviation_def
        factorPipeType_def leakingSensor_def)

lemma leakDb_json: "jsonStringify [''Active leak detected''] = ''[\"Active leak detected\"]''"
  by (simp add: jsonStringify_def)

lemma leakDb_recommendation:
  "recommendationFor 50 = ''Schedule preventive maintenance within the next week.''"
  by (simp add: recommendationFor_def)

lemma leakDb_score:
  "calculatePipeRiskScore exClock (Some leakDb) 2
     = (Some leakPrediction, Some (leakDb\<lparr>pipeRiskScores := [leakRow]\<rparr>))"
  apply (simp add: calculatePipeRiskScore_def Let_def leakDb_sensor leakDb_reads leakDb_factors
      leakDb_json leakDb_recommendation)
  apply (simp add: upsertPipeRiskScore_def leakPrediction_def leakRow_def leakDb_def
      leakingSensor_def exClock_def)
  done

subsection \<open>The steady readings, learned\<close>

lemma steady_recent:
  "getRecentFlowReadings (Some (steadyDb\<lparr>flowPatterns := ps\<rparr>)) 1 100 = rev steadyReadings"
  by (simp add: getRecentFlowReadings_def steadyDb_def steadyReadings_def)

lemma steady_buckets:
  "foldl (pushReading exClock) [] (rev steadyReadings) = [((4, 0), [500, 500, 500, 500, 500, 500, 500, 500, 500, 500])]"
  by (simp add: steadyReadings_def pushReading_def getDay_def getHours_def exClock_def Let_def)

lemma steady_bucketPattern:
  "bucketPattern 1 ((4, 0), [500, 500, 500, 500, 500, 500, 500, 500, 500, 500]) = steadyPattern"
  by (simp add: bucketPattern_def Let_def js_round_def steadyPattern_def)

lemma steady_learn:
  "learnFlowPatterns exClock (Some (steadyDb\<lparr>flowPatterns := ps\<rparr>)) 1
     = Some (steadyDb\<lparr>flowPatterns := ps @ [steadyPattern]\<rparr>)"
  apply (simp add: learnFlowPatterns_def Let_def steady_recent steady_buckets steady_bucketPattern)
  apply (simp add: steadyReadings_def upsertFlowPattern_def)
  done

lemma learnFlowPatterns_few_readings:
  "length (getRecentFlowReadings db sensorId 100) < 10 \<Longrightarrow> learnFlowPatterns c db sensorId = db"
  by (simp add: learnFlowPatterns_def)

lemma foldl_upsertFlowPattern:
  "foldl (\<lambda>db' entry. upsertFlowPattern db' (f entry)) (Some d) entries
     = Some (d\<lparr>flowPatterns := flowPatterns d @ map f entries\<rparr>)"
  by (induction entries arbitrary: d) (simp_all add: upsertFlowPattern_def)

text \<open>Every run over at least 10 readings appends one row per bucket of the readings.\<close>

lemma learnFlowPatterns_appends:
  assumes "length (getRecentFlowReadings (Some d) sensorId 100) \<ge> 10"
  shows "learnFlowPatterns c (Some d) sensorId
     = Some (d\<lparr>flowPatterns := flowPatterns d
          @ map (bucketPattern sensorId)
              (foldl (pushReading c) [] (getRecentFlowReadings (Some d) sensorId 100))\<rparr>)"
  using assms by (simp add: learnFlowPatterns_def Let_def foldl_upsertFlowPattern)

subsection \<open>The zero-mean readings, scored\<close>

















subsection \<open>The factor "High flow variability"\<close>







subsection \<open>The comparison on the example stores\<close>

lemma similarDb_aggregated:
  "getAggregatedFlowData exClock (Some similarDb) 300000 =
     [\<lparr>ag_sensorId = 1, ag_avgFlowRate = 100, ag_minFlowRate = 100, ag_maxFlowRate = 100,
        ag_avgPressure = 4000, ag_readingCount = 1\<rparr>,
      \<lparr>ag_sensorId = 2, ag_avgFlowRate = 105, ag_minFlowRate = 105, ag_maxFlowRate = 105,
        ag_avgPressure = 4000, ag_readingCount = 1\<rparr>,
      \<lparr>ag_sensorId = 3, ag_avgFlowRate = 98, ag_minFlowRate = 98, ag_maxFlowRate = 98,
        ag_avgPressure = 4000, ag_readingCount = 1\<rparr>]"
  by (simp add: getAggregatedFlowData_def similarDb_def exClock_def Let_def)

lemma drainedDb_aggregated:
  "getAggregatedFlowData exClock (Some drainedDb) 300000 =
     [\<lparr>ag_sensorId = 1, ag_avgFlowRate = 0, ag_minFlowRate = 0, ag_maxFlowRate = 0,
        ag_avgPressure = 4000, ag_readingCount = 1\<rparr>,
      \<lparr>ag_sensorId = 2, ag_avgFlowRate = 0, ag_minFlowRate = 0, ag_maxFlowRate = 0,
        ag_avgPressure = 4000, ag_readingCount = 1\<rparr>,
      \<lparr>ag_sensorId = 3, ag_avgFlowRate = 0, ag_minFlowRate = 0, ag_maxFlowRate = 0,
        ag_avgPressure = 4000, ag_readingCount = 1\<rparr>,
      \<lparr>ag_sensorId = 4, ag_avgFlowRate = 1000, ag_minFlowRate = 1000, ag_maxFlowRate = 1000,
        ag_avgPressure = 4000, ag_readingCount = 1\<rparr>]"
  by (simp add: getAggregatedFlowData_def drainedDb_def exClock_def Let_def)

lemma compare_system_wide:
  assumes "sensorData = getAggregatedFlowData c db 300000"
    and "length sensorData \<ge> 2"
    and "real (length (filter (\<lambda>s. ag_avgFlowRate s
                 < sum_list (map ag_avgFlowRate sensorData) / real (length sensorData) * 0.5) sensorData))
          > real (length sensorData) * 0.7"
  shows "compareFlowAcrossPipes c db =
     \<lparr>isSystemWideIssue = True, affectedSensors = map ag_sensorId sensorData,
      diagnosis = ''System-wide low flow detected. Possible causes: low water tank level, main supply issue, or scheduled maintenance.''\<rparr>"
proof -
  define avg where "avg = sum_list (map ag_avgFlowRate sensorData) / real (length sensorData)"
  obtain v where fv: "calculateFlowVariance c db =
      Some \<lparr>fv_avgFlow = avg, fv_variance = v, fv_stdDev = sqrt v, fv_sensorData = sensorData\<rparr>"
    using assms(1,2) by (simp add: calculateFlowVariance_def Let_def avg_def)
  have sw: "real (length (filter (\<lambda>s. ag_avgFlowRate s < avg * 0.5) sensorData))
              > real (length sensorData) * 0.7"
    using assms(3) unfolding avg_def .
  show ?thesis
    unfolding compareFlowAcrossPipes_def fv using sw by (simp add: Let_def)
qed

lemma sqrt_26_3: "2 \<le> sqrt (26 / 3)"
  by (rule real_le_rsqrt) simp

lemma compare_similar:
  assumes "map ag_avgFlowRate (getAggregatedFlowData c db 300000) = [100, 105, 98]"
  shows "compareFlowAcrossPipes c db =
     \<lparr>isSystemWideIssue = False, affectedSensors = [],
      diagnosis = ''All sensors operating within normal parameters.''\<rparr>"
proof -
  obtain x y z where xyz: "getAggregatedFlowData c db 300000 = [x, y, z]"
    "ag_avgFlowRate x = 100" "ag_avgFlowRate y = 105" "ag_avgFlowRate z = 98"
    using assms by (auto simp add: map_eq_Cons_conv)
  have fv: "calculateFlowVariance c db =
      Some \<lparr>fv_avgFlow = 101, fv_variance = 26 / 3, fv_stdDev = sqrt (26 / 3), fv_sensorData = [x, y, z]\<rparr>"
    by (simp add: calculateFlowVariance_def Let_def xyz)
  show ?thesis
    using sqrt_26_3 by (simp add: compareFlowAcrossPipes_def fv Let_def xyz)
qed

section \<open>The windowed analyzer\<close>

text \<open>
  C10. For an unknown sensor id (no row in \<open>sensors\<close>, or no database at all)
  \<open>analyzeFlowOverTime\<close> returns a result, and that result is status normal, confidence 0,
  severity low, message "Sensor not found" and exactly the factor \<open>sensor_not_found\<close>; it
  is not the insufficient-data result (factor \<open>insufficient_data\<close>, confidence 50).
\<close>

theorem analyzeFlowOverTime_unknown_sensor:
  assumes "getSensorById db sensorId = None"
  shows "fst (analyzeFlowOverTime c db sensorId windowMinutes) =
           \<lparr>r_sensorId = sensorId, r_status = Normal, r_confidence = 0,
            r_message = ''Sensor not found'', r_severity = Low,
            r_factors = [''sensor_not_found'']\<rparr>
         \<and> r_factors (fst (analyzeFlowOverTime c db sensorId windowMinutes)) \<noteq> [''insufficient_data'']
         \<and> r_confidence (fst (analyzeFlowOverTime c db sensorId windowMinutes)) \<noteq> 50"
  using assms by (simp add: analyzeFlowOverTime_def Let_def)

text \<open>Sensor 7 is not in \<open>lowPressureDb\<close>; and no sensor is known without a database.\<close>

theorem analyzeFlowOverTime_unknown_sensor_witness:
  "getSensorById (Some lowPressureDb) 7 = None
   \<and> r_factors (fst (analyzeFlowOverTime exClock (Some lowPressureDb) 7 5)) = [''sensor_not_found'']
   \<and> r_confidence (fst (analyzeFlowOverTime exClock (Some lowPressureDb) 7 5)) = 0
   \<and> getSensorById None 1 = None
   \<and> r_factors (fst (analyzeFlowOverTime exClock None 1 5)) = [''sensor_not_found'']"
proof -
  have a: "getSensorById (Some lowPressureDb) 7 = None"
    by (simp add: ex_defs)
  have b: "getSensorById None 1 = None"
    by (simp add: getSensorById_def)
  show ?thesis
    using a b analyzeFlowOverTime_unknown_sensor [OF a, of exClock 5]
      analyzeFlowOverTime_unknown_sensor [OF b, of exClock 5]
    by simp
qed

text \<open>
  C3. For a known sensor with fewer than 3 readings in the window
  \<open>[now - windowMinutes * 60000, now]\<close>, \<open>analyzeFlowOverTime\<close> returns status normal,
  confidence 50 and the factor list \<open>["insufficient_data"]\<close>.
\<close>

theorem analyzeFlowOverTime_insufficient_data:
  assumes "getSensorById db sensorId = Some sensor"
    and "length (getFlowReadingsInTimeRange db sensorId
           (real_of_int (now c) - windowMinutes * 60 * 1000) (real_of_int (now c))) < 3"
  shows "r_status (fst (analyzeFlowOverTime c db sensorId windowMinutes)) = Normal
         \<and> r_confidence (fst (analyzeFlowOverTime c db sensorId windowMinutes)) = 50
         \<and> r_factors (fst (analyzeFlowOverTime c db sensorId windowMinutes)) = [''insufficient_data'']"
  using assms by (simp add: analyzeFlowOverTime_def Let_def)

theorem analyzeFlowOverTime_insufficient_data_witness:
  "getSensorById (Some sparseDb) 1 = Some exSensor
   \<and> length (getFlowReadingsInTimeRange (Some sparseDb) 1
         (real_of_int (now exClock) - 5 * 60 * 1000) (real_of_int (now exClock))) = 2
   \<and> r_status (fst (analyzeFlowOverTime exClock (Some sparseDb) 1 5)) = Normal
   \<and> r_confidence (fst (analyzeFlowOverTime exClock (Some sparseDb) 1 5)) = 50
   \<and> r_factors (fst (analyzeFlowOverTime exClock (Some sparseDb) 1 5)) = [''insufficient_data'']"
proof -
  have a: "getSensorById (Some sparseDb) 1 = Some exSensor"
    by (simp add: ex_defs)
  have b: "length (getFlowReadingsInTimeRange (Some sparseDb) 1
         (real_of_int (now exClock) - 5 * 60 * 1000) (real_of_int (now exClock))) = 2"
    by (simp add: ex_defs)
  show ?thesis
    using a b analyzeFlowOverTime_insufficient_data [OF a, of exClock 5]
    by simp
qed

text \<open>
  C6, as the code has it. For a known sensor whose window holds at least 3 readings with
  mean pressure below 3000, \<open>analyzeFlowOverTime\<close> returns status leak and severity high,
  \<open>low_pressure\<close> is among the factors, and the confidence is 85 when \<open>checkFlowAnomaly\<close>
  reports no deviation of the mean flow from the learned pattern, and 95 when it does
  (the pattern check adds 10, capped at 95).
\<close>

theorem analyzeFlowOverTime_low_pressure:
  assumes "getSensorById db sensorId = Some sensor"
    and "readings = getFlowReadingsInTimeRange db sensorId
           (real_of_int (now c) - windowMinutes * 60 * 1000) (real_of_int (now c))"
    and "length readings \<ge> 3"
    and "sum_list (map (\<lambda>r. real_of_int (fr_pressure r)) readings) / real (length readings) < 3000"
  shows "r_status (fst (analyzeFlowOverTime c db sensorId windowMinutes)) = Leak
         \<and> r_severity (fst (analyzeFlowOverTime c db sensorId windowMinutes)) = High
         \<and> ''low_pressure'' \<in> set (r_factors (fst (analyzeFlowOverTime c db sensorId windowMinutes)))
         \<and> r_confidence (fst (analyzeFlowOverTime c db sensorId windowMinutes))
           = (if isAnomaly (checkFlowAnomaly c db sensorId
                   (sum_list (map (\<lambda>r. real_of_int (fr_flowRate r)) readings) / real (length readings)))
              then 95 else 85)"
  using assms by (simp add: analyzeFlowOverTime_def Let_def)

text \<open>
  With a learned bucket (10 samples, mean 5000, deviation 100) for the current hour, three
  readings at pressure 1800 and flow 1000 are a leak reported with confidence 95, not 85.
\<close>

theorem analyzeFlowOverTime_low_pressure_counterexample:
  "getSensorById (Some (learnedDb 10)) 1 = Some exSensor
   \<and> map fr_pressure (getFlowReadingsInTimeRange (Some (learnedDb 10)) 1
         (real_of_int (now exClock) - 5 * 60 * 1000) (real_of_int (now exClock))) = [1800, 1800, 1800]
   \<and> r_status (fst (analyzeFlowOverTime exClock (Some (learnedDb 10)) 1 5)) = Leak
   \<and> r_confidence (fst (analyzeFlowOverTime exClock (Some (learnedDb 10)) 1 5)) = 95"
  by (simp add: ex_defs analyzeFlowOverTime_def checkFlowAnomaly_def Let_def generateAnalysisMessage_def)

text \<open>With nothing learned, the same readings give confidence 85.\<close>

theorem analyzeFlowOverTime_low_pressure_witness:
  "getSensorById (Some lowPressureDb) 1 = Some exSensor
   \<and> map fr_pressure (getFlowReadingsInTimeRange (Some lowPressureDb) 1
         (real_of_int (now exClock) - 5 * 60 * 1000) (real_of_int (now exClock))) = [1800, 1800, 1800]
   \<and> r_status (fst (analyzeFlowOverTime exClock (Some lowPressureDb) 1 5)) = Leak
   \<and> r_severity (fst (analyzeFlowOverTime exClock (Some lowPressureDb) 1 5)) = High
   \<and> ''low_pressure'' \<in> set (r_factors (fst (analyzeFlowOverTime exClock (Some lowPressureDb) 1 5)))
   \<and> r_confidence (fst (analyzeFlowOverTime exClock (Some lowPressureDb) 1 5)) = 85"
proof -
  let ?rs = "getFlowReadingsInTimeRange (Some lowPressureDb) 1
         (real_of_int (now exClock) - 5 * 60 * 1000) (real_of_int (now exClock))"
  have a: "getSensorById (Some lowPressureDb) 1 = Some exSensor"
    by (simp add: ex_defs)
  have b: "?rs = lowPressureReadings"
    by (simp add: ex_defs)
  have c: "length ?rs \<ge> 3"
    unfolding b by (simp add: lowPressureReadings_def)
  have d: "sum_list (map (\<lambda>r. real_of_int (fr_pressure r)) ?rs) / real (length ?rs) < 3000"
    unfolding b by (simp add: lowPressureReadings_def)
  have e: "\<not> isAnomaly (checkFlowAnomaly exClock (Some lowPressureDb) 1 x)" for x
    by (simp add: checkFlowAnomaly_def Let_def ex_defs)
  show ?thesis
    using a analyzeFlowOverTime_low_pressure [OF a refl c d] e
    unfolding b by (simp add: lowPressureReadings_def)
qed

text \<open>
  C9, as the code has it. \<open>analyzeFlowOverTime\<close> only reads: whatever it classifies, the
  store after the call is the store before it. It creates no Alert and does not update
  the stored Sensor status, on a first call as on a repeated one.
\<close>

theorem analyzeFlowOverTime_read_only:
  "snd (analyzeFlowOverTime c db sensorId windowMinutes) = db"
  by (simp add: analyzeFlowOverTime_def Let_def split: option.split)

text \<open>
  The sensor of \<open>lowPressureDb\<close> is stored as active and is classified as leak: the
  call leaves the alerts table empty and the sensor active.
\<close>

theorem analyzeFlowOverTime_alert_counterexample:
  "r_status (fst (analyzeFlowOverTime exClock (Some lowPressureDb) 1 5)) = Leak
   \<and> map s_status (sensors lowPressureDb) = [Active]
   \<and> alerts lowPressureDb = []
   \<and> snd (analyzeFlowOverTime exClock (Some lowPressureDb) 1 5) = Some lowPressureDb"
  by (simp add: ex_defs analyzeFlowOverTime_def checkFlowAnomaly_def Let_def generateAnalysisMessage_def)

section \<open>The anomaly checker\<close>

text \<open>
  C4. If the \<open>flowPatterns\<close> bucket for the current hour and weekday is absent or has
  \<open>sampleCount < 10\<close>, \<open>checkFlowAnomaly\<close> returns \<open>isAnomaly = false\<close>, \<open>deviation = 0\<close>
  and \<open>expectedRange = null\<close>, for every sensor and every current flow.
\<close>

theorem checkFlowAnomaly_insufficient_history:
  assumes "getFlowPattern db sensorId (getHours c (now c)) (getDay c (now c)) = None
           \<or> (\<exists>p. getFlowPattern db sensorId (getHours c (now c)) (getDay c (now c)) = Some p
                  \<and> fp_sampleCount p < 10)"
  shows "checkFlowAnomaly c db sensorId currentFlowRate
           = \<lparr>isAnomaly = False, deviation = 0, expectedRange = None\<rparr>"
  using assms by (auto simp add: checkFlowAnomaly_def Let_def)

text \<open>A bucket of 9 samples, and no bucket, with a flow far from the learned mean.\<close>

theorem checkFlowAnomaly_insufficient_history_witness:
  "getFlowPattern (Some (learnedDb 9)) 1 (getHours exClock (now exClock)) (getDay exClock (now exClock))
     = Some (exPattern 9)
   \<and> fp_sampleCount (exPattern 9) < 10
   \<and> checkFlowAnomaly exClock (Some (learnedDb 9)) 1 90000
       = \<lparr>isAnomaly = False, deviation = 0, expectedRange = None\<rparr>
   \<and> getFlowPattern (Some lowPressureDb) 1 (getHours exClock (now exClock)) (getDay exClock (now exClock))
     = None
   \<and> checkFlowAnomaly exClock (Some lowPressureDb) 1 90000
       = \<lparr>isAnomaly = False, deviation = 0, expectedRange = None\<rparr>"
proof -
  have a: "getFlowPattern (Some (learnedDb 9)) 1 (getHours exClock (now exClock)) (getDay exClock (now exClock))
     = Some (exPattern 9)"
    by (simp add: ex_defs)
  have b: "fp_sampleCount (exPattern 9) < 10"
    by (simp add: ex_defs)
  have c: "getFlowPattern (Some lowPressureDb) 1 (getHours exClock (now exClock)) (getDay exClock (now exClock))
     = None"
    by (simp add: ex_defs)
  show ?thesis
    using a b c
      checkFlowAnomaly_insufficient_history [of "Some (learnedDb 9)" 1 exClock 90000]
      checkFlowAnomaly_insufficient_history [of "Some lowPressureDb" 1 exClock 90000]
    by simp
qed

text \<open>
  C5, as the code has it. When the bucket for the current hour and weekday exists with
  \<open>sampleCount \<ge> 10\<close>, \<open>isAnomaly\<close> is true exactly when the current flow lies outside
  \<open>[avg - 2 * std, avg + 2 * std]\<close> and \<open>deviation\<close> is the current flow minus \<open>avg\<close>; the
  \<open>expectedRange\<close> returned is that range with both bounds divided by 100.
\<close>

theorem checkFlowAnomaly_learned:
  assumes "getFlowPattern db sensorId (getHours c (now c)) (getDay c (now c)) = Some p"
    and "fp_sampleCount p \<ge> 10"
  shows "expectedRange (checkFlowAnomaly c db sensorId currentFlowRate)
           = Some ((real_of_int (fp_avgFlowRate p) - 2 * real_of_int (fp_stdDeviation p)) / 100,
                   (real_of_int (fp_avgFlowRate p) + 2 * real_of_int (fp_stdDeviation p)) / 100)
         \<and> isAnomaly (checkFlowAnomaly c db sensorId currentFlowRate)
           = (currentFlowRate < real_of_int (fp_avgFlowRate p) - 2 * real_of_int (fp_stdDeviation p)
              \<or> currentFlowRate > real_of_int (fp_avgFlowRate p) + 2 * real_of_int (fp_stdDeviation p))
         \<and> deviation (checkFlowAnomaly c db sensorId currentFlowRate)
           = currentFlowRate - real_of_int (fp_avgFlowRate p)"
  using assms by (simp add: checkFlowAnomaly_def Let_def)

text \<open>
  A bucket with mean 5000 and deviation 100 gives the range [4800, 5200]; the
  \<open>expectedRange\<close> returned is (48, 52).
\<close>

theorem checkFlowAnomaly_expectedRange_counterexample:
  "getFlowPattern (Some (learnedDb 10)) 1 (getHours exClock (now exClock)) (getDay exClock (now exClock))
     = Some (exPattern 10)
   \<and> fp_sampleCount (exPattern 10) \<ge> 10
   \<and> real_of_int (fp_avgFlowRate (exPattern 10)) - 2 * real_of_int (fp_stdDeviation (exPattern 10)) = 4800
   \<and> real_of_int (fp_avgFlowRate (exPattern 10)) + 2 * real_of_int (fp_stdDeviation (exPattern 10)) = 5200
   \<and> expectedRange (checkFlowAnomaly exClock (Some (learnedDb 10)) 1 5000) = Some (48, 52)
   \<and> expectedRange (checkFlowAnomaly exClock (Some (learnedDb 10)) 1 5000) \<noteq> Some (4800, 5200)"
  by (simp add: ex_defs checkFlowAnomaly_def Let_def)

theorem checkFlowAnomaly_learned_witness:
  "getFlowPattern (Some (learnedDb 10)) 1 (getHours exClock (now exClock)) (getDay exClock (now exClock))
     = Some (exPattern 10)
   \<and> fp_sampleCount (exPattern 10) \<ge> 10
   \<and> expectedRange (checkFlowAnomaly exClock (Some (learnedDb 10)) 1 1000) = Some (48, 52)
   \<and> isAnomaly (checkFlowAnomaly exClock (Some (learnedDb 10)) 1 1000)
   \<and> deviation (checkFlowAnomaly exClock (Some (learnedDb 10)) 1 1000) = - 4000"
proof -
  have a: "getFlowPattern (Some (learnedDb 10)) 1 (getHours exClock (now exClock)) (getDay exClock (now exClock))
     = Some (exPattern 10)"
    by (simp add: ex_defs)
  have b: "fp_sampleCount (exPattern 10) \<ge> 10"
    by (simp add: ex_defs)
  show ?thesis
    using a b checkFlowAnomaly_learned [OF a b, of 1000]
    by (simp add: exPattern_def)
qed

section \<open>The risk scorer\<close>

text \<open>
  C1, as the code has it. In every result of \<open>calculatePipeRiskScore\<close> the risk score, the
  leak probability and the blockage probability are within [0, 100]. The row it appends to
  \<open>pipeRiskScores\<close> holds the same risk score, and the two probabilities multiplied by
  100: the stored leak probability is within [0, 10000], the stored blockage probability
  is 0.
\<close>

theorem calculatePipeRiskScore_ranges:
  assumes "calculatePipeRiskScore c db sensorId = (Some r, db')"
  shows "0 \<le> p_riskScore r \<and> p_riskScore r \<le> 100
         \<and> 0 \<le> p_leakProbability r \<and> p_leakProbability r \<le> 100
         \<and> 0 \<le> p_blockageProbability r \<and> p_blockageProbability r \<le> 100
         \<and> (\<exists>d row. db = Some d \<and> db' = Some (d\<lparr>pipeRiskScores := pipeRiskScores d @ [row]\<rparr>)
               \<and> rs_sensorId row = sensorId
               \<and> rs_riskScore row = p_riskScore r
               \<and> rs_leakProbability row = p_leakProbability r * 100
               \<and> rs_blockageProbability row = p_blockageProbability r * 100
               \<and> 0 \<le> rs_riskScore row \<and> rs_riskScore row \<le> 100
               \<and> 0 \<le> rs_leakProbability row \<and> rs_leakProbability row \<le> 10000
               \<and> rs_blockageProbability row = 0)"
proof -
  obtain sensor where s: "getSensorById db sensorId = Some sensor"
    using assms by (auto simp add: calculatePipeRiskScore_def split: option.splits)
  then obtain d where d: "db = Some d"
    using getSensorById_Some_store by blast
  define a0 where "a0 = \<lparr>sc_riskScore = 0, sc_leakProbability = 0, sc_blockageProbability = 0, sc_factors = []\<rparr>"
  define a4 where "a4 = factorPipeType sensor
      (factorPatternDeviation c (getAllFlowPatternsForSensor db sensorId) (getRecentFlowReadings db sensorId 50)
        (factorFlowVariance (getRecentFlowReadings db sensorId 50) (factorCurrentStatus sensor a0)))"
  have b: "0 \<le> sc_riskScore a4 \<and> 0 \<le> sc_leakProbability a4 \<and> sc_blockageProbability a4 = 0"
    using factors_bounds [OF a4_def]
    by (simp add: a0_def)
  have r: "p_riskScore r = min (sc_riskScore a4) 100"
      "p_leakProbability r = min (sc_leakProbability a4) 100"
      "p_blockageProbability r = min (sc_blockageProbability a4) 100"
    using assms s by (auto simp add: calculatePipeRiskScore_def Let_def a4_def a0_def)
  have w: "db' = Some (d\<lparr>pipeRiskScores := pipeRiskScores d @
            [\<lparr>rs_sensorId = sensorId, rs_riskScore = p_riskScore r,
              rs_leakProbability = p_leakProbability r * 100,
              rs_blockageProbability = p_blockageProbability r * 100,
              rs_factors = jsonStringify (p_factors r), rs_lastAnalyzedAt = now c\<rparr>]\<rparr>)"
    using assms s d by (auto simp add: calculatePipeRiskScore_def Let_def upsertPipeRiskScore_def)
  have rng: "0 \<le> p_riskScore r \<and> p_riskScore r \<le> 100
         \<and> 0 \<le> p_leakProbability r \<and> p_leakProbability r \<le> 100
         \<and> p_blockageProbability r = 0"
    using b r by simp
  show ?thesis
    using rng d w
    by (intro conjI exI [of _ d]
          exI [of _ "\<lparr>rs_sensorId = sensorId, rs_riskScore = p_riskScore r,
              rs_leakProbability = p_leakProbability r * 100,
              rs_blockageProbability = p_blockageProbability r * 100,
              rs_factors = jsonStringify (p_factors r), rs_lastAnalyzedAt = now c\<rparr>"]) simp_all
qed

text \<open>
  A sensor stored as leaking, nothing else known: the result has leak probability 80, the
  row written has leak probability 8000.
\<close>

theorem calculatePipeRiskScore_stored_counterexample:
  "fst (calculatePipeRiskScore exClock (Some leakDb) 2) = Some leakPrediction
   \<and> p_leakProbability leakPrediction = 80
   \<and> snd (calculatePipeRiskScore exClock (Some leakDb) 2) = Some (leakDb\<lparr>pipeRiskScores := [leakRow]\<rparr>)
   \<and> rs_leakProbability leakRow = 8000
   \<and> \<not> rs_leakProbability leakRow \<le> 100"
  by (simp add: leakDb_score) (simp add: leakPrediction_def leakRow_def)

theorem calculatePipeRiskScore_ranges_witness:
  "calculatePipeRiskScore exClock (Some leakDb) 2
     = (Some leakPrediction, Some (leakDb\<lparr>pipeRiskScores := [leakRow]\<rparr>))
   \<and> 0 \<le> p_riskScore leakPrediction \<and> p_riskScore leakPrediction \<le> 100
   \<and> 0 \<le> p_leakProbability leakPrediction \<and> p_leakProbability leakPrediction \<le> 100
   \<and> 0 \<le> p_blockageProbability leakPrediction \<and> p_blockageProbability leakPrediction \<le> 100
   \<and> (\<exists>d row. Some leakDb = Some d
         \<and> Some (leakDb\<lparr>pipeRiskScores := [leakRow]\<rparr>) = Some (d\<lparr>pipeRiskScores := pipeRiskScores d @ [row]\<rparr>)
         \<and> rs_leakProbability row = p_leakProbability leakPrediction * 100)"
  using calculatePipeRiskScore_ranges [OF leakDb_score] leakDb_score
  by blast




section \<open>The cross-sensor comparator\<close>

text \<open>
  The part of the system-wide rule that the code implements: when at least two sensors
  have data and the fraction of sensors whose mean flow is below 0.5 times the overall
  mean flow exceeds 0.7, the result is system-wide and lists all sensors.
\<close>

lemma compare_system_wide_fraction:
  assumes "sensorData = getAggregatedFlowData c db 300000"
    and "length sensorData \<ge> 2"
    and "real (length (filter (\<lambda>s. ag_avgFlowRate s
                 < sum_list (map ag_avgFlowRate sensorData) / real (length sensorData) * 0.5) sensorData))
               / real (length sensorData) > 0.7"
  shows "isSystemWideIssue (compareFlowAcrossPipes c db)
         \<and> affectedSensors (compareFlowAcrossPipes c db) = map ag_sensorId sensorData"
proof -
  have n: "0 < real (length sensorData)"
    using assms(2) by (cases sensorData) simp_all
  let ?low = "filter (\<lambda>s. ag_avgFlowRate s
                 < sum_list (map ag_avgFlowRate sensorData) / real (length sensorData) * 0.5) sensorData"
  have "0.7 < real (length ?low) / real (length sensorData)"
    using assms(3) by simp
  then have "0.7 * real (length sensorData) < real (length ?low)"
    using n by (simp only: pos_less_divide_eq)
  then have cnt: "real (length ?low) > real (length sensorData) * 0.7"
    by (simp only: mult.commute)
  have eq: "compareFlowAcrossPipes c db =
     \<lparr>isSystemWideIssue = True, affectedSensors = map ag_sensorId sensorData,
      diagnosis = ''System-wide low flow detected. Possible causes: low water tank level, main supply issue, or scheduled maintenance.''\<rparr>"
    using compare_system_wide [OF assms(1) assms(2) cnt] .
  show ?thesis
    by (simp add: eq)
qed

text \<open>Mean flows 0, 0, 0 and 1000: three of four sensors are below half of the mean 250.\<close>

lemma drainedDb_system_wide:
  "map ag_avgFlowRate (getAggregatedFlowData exClock (Some drainedDb) 300000) = [0, 0, 0, 1000]
   \<and> isSystemWideIssue (compareFlowAcrossPipes exClock (Some drainedDb))
   \<and> affectedSensors (compareFlowAcrossPipes exClock (Some drainedDb)) = [1, 2, 3, 4]"
proof -
  let ?sd = "getAggregatedFlowData exClock (Some drainedDb) 300000"
  have a: "length ?sd \<ge> 2"
    unfolding drainedDb_aggregated by simp
  have b: "real (length (filter (\<lambda>s. ag_avgFlowRate s
                 < sum_list (map ag_avgFlowRate ?sd) / real (length ?sd) * 0.5) ?sd))
               / real (length ?sd) > 0.7"
    unfolding drainedDb_aggregated by simp
  have c: "map ag_avgFlowRate ?sd = [0, 0, 0, 1000]" "map ag_sensorId ?sd = [1, 2, 3, 4]"
    by (simp_all add: drainedDb_aggregated)
  show ?thesis
    using compare_system_wide_fraction [OF refl a b] c by simp
qed

text \<open>
  Sensors that all report the same flow \<open>x \<ge> 0\<close> (a dry system, \<open>x = 0\<close>, included) are
  never below half of their own mean, so the system-wide rule cannot fire for them.
\<close>

lemma uniform_no_low_flow:
  assumes "\<forall>s\<in>set sensorData. ag_avgFlowRate s = x" and "0 \<le> x" and "sensorData \<noteq> []"
  shows "filter (\<lambda>s. ag_avgFlowRate s
            < sum_list (map ag_avgFlowRate sensorData) / real (length sensorData) * 0.5) sensorData = []"
proof -
  have "map ag_avgFlowRate sensorData = replicate (length sensorData) x"
    using assms(1) by (induction sensorData) simp_all
  then have "sum_list (map ag_avgFlowRate sensorData) = real (length sensorData) * x"
    by (simp add: sum_list_replicate)
  moreover have "0 < real (length sensorData)"
    using assms(3) by (cases sensorData) simp_all
  ultimately have m: "sum_list (map ag_avgFlowRate sensorData) / real (length sensorData) = x"
    by simp
  show ?thesis
    unfolding m using assms(1,2) by (auto simp add: filter_empty_conv)
qed

text \<open>
  C2. Three sensors with one reading each in the window, mean flows 100, 105 and 98 (all
  within 10% of each other): the source announces that similar low flow on all sensors is
  a system-wide issue (low tank), and the claim expects \<open>isSystemWideIssue = true\<close> with
  all three ids. \<open>compareFlowAcrossPipes\<close> compares every sensor with half of the mean of
  these same sensors (50.5), finds none below it, and returns \<open>isSystemWideIssue = false\<close>
  with no affected sensor.
\<close>

theorem compareFlowAcrossPipes_similar_not_system_wide:
  "map ag_sensorId (getAggregatedFlowData exClock (Some similarDb) 300000) = [1, 2, 3]
   \<and> map ag_avgFlowRate (getAggregatedFlowData exClock (Some similarDb) 300000) = [100, 105, 98]
   \<and> compareFlowAcrossPipes exClock (Some similarDb) =
       \<lparr>isSystemWideIssue = False, affectedSensors = [],
        diagnosis = ''All sensors operating within normal parameters.''\<rparr>"
proof -
  have a: "map ag_avgFlowRate (getAggregatedFlowData exClock (Some similarDb) 300000) = [100, 105, 98]"
    by (simp add: similarDb_aggregated)
  show ?thesis
    using a compare_similar [OF a] by (simp add: similarDb_aggregated)
qed

section \<open>The pattern learner\<close>

text \<open>
  C8. Learning twice over the same ten readings of one hour: the first run inserts the
  bucket's row, the second run inserts a second row for the same (sensor, hour, weekday)
  and leaves the first as it was, its \<open>sampleCount\<close> still 10.
\<close>

theorem learnFlowPatterns_twice_duplicates:
  "flowPatterns steadyDb = []
   \<and> learnFlowPatterns exClock (Some steadyDb) 1 = Some (steadyDb\<lparr>flowPatterns := [steadyPattern]\<rparr>)
   \<and> learnFlowPatterns exClock (learnFlowPatterns exClock (Some steadyDb) 1) 1
       = Some (steadyDb\<lparr>flowPatterns := [steadyPattern, steadyPattern]\<rparr>)
   \<and> fp_sampleCount steadyPattern = 10"
  using steady_learn [of "[]"] steady_learn [of "[steadyPattern]"]
  by (simp add: steadyDb_def steadyPattern_def)

end
